theory Spec2Isabelle
  imports Complex_Main
begin

section \<open>Numbers\<close>

text \<open>
  A TypeScript \<open>number\<close> is embedded as a real number or the value \<open>NaN\<close>.
  Arithmetic on numbers is exact: the rounding error, the overflow to an infinity and the
  signed zero of IEEE double arithmetic are not part of this model. Closing prices and the
  other fields of a price bar are finite numbers, so they are plain reals; a result that the
  code can compute as \<open>0 / 0\<close> is a \<open>jsnum\<close>.
\<close>

datatype jsnum = Num real | NaN

text \<open>The operators \<open>+\<close>, \<open>-\<close>, \<open>*\<close> and \<open>Math.pow(x, 2)\<close>: a NaN operand gives NaN.\<close>

fun jadd :: "jsnum \<Rightarrow> jsnum \<Rightarrow> jsnum" where
  "jadd (Num a) (Num b) = Num (a + b)"
| "jadd _ _ = NaN"

fun jsub :: "jsnum \<Rightarrow> jsnum \<Rightarrow> jsnum" where
  "jsub (Num a) (Num b) = Num (a - b)"
| "jsub _ _ = NaN"

fun jmul :: "jsnum \<Rightarrow> jsnum \<Rightarrow> jsnum" where
  "jmul (Num a) (Num b) = Num (a * b)"
| "jmul _ _ = NaN"

fun jpow2 :: "jsnum \<Rightarrow> jsnum" where
  "jpow2 (Num a) = Num (a * a)"
| "jpow2 NaN = NaN"

text \<open>Division of a number by a count that is not zero.\<close>

fun jdiv_count :: "jsnum \<Rightarrow> nat \<Rightarrow> jsnum" where
  "jdiv_count (Num a) n = Num (a / real n)"
| "jdiv_count NaN n = NaN"

text \<open>\<open>Math.sqrt\<close>: NaN on a negative number and on NaN.\<close>

fun jsqrt :: "jsnum \<Rightarrow> jsnum" where
  "jsqrt (Num a) = (if a < 0 then NaN else Num (sqrt a))"
| "jsqrt NaN = NaN"

text \<open>The comparison \<open>\<le>\<close> of two numbers: false as soon as one of them is NaN.\<close>

fun jle :: "jsnum \<Rightarrow> jsnum \<Rightarrow> bool" where
  "jle (Num a) (Num b) = (a \<le> b)"
| "jle _ _ = False"

text \<open>
  \<open>Number(x.toFixed(2))\<close> on a finite \<open>x\<close>: \<open>toFixed\<close> takes the sign off, picks the
  integer \<open>n\<close> with \<open>n / 100\<close> nearest to \<open>|x|\<close> (the larger \<open>n\<close> on a tie) and prints
  \<open>n / 100\<close> with the sign; \<open>Number\<close> reads the digits back. (From \<open>10^21\<close> on,
  \<open>toFixed\<close> prints the number itself; a double of that size is an integer, so the value
  is the same.) The digit count is the literal 2, which is in the range \<open>toFixed\<close>
  accepts, so the call cannot throw.
\<close>

definition toFixed2 :: "real \<Rightarrow> real" where
  "toFixed2 x =
     (if x < 0 then - (of_int \<lfloor>(- x) * 100 + 1 / 2\<rfloor> / 100)
      else of_int \<lfloor>x * 100 + 1 / 2\<rfloor> / 100)"

text \<open>On NaN, \<open>toFixed\<close> prints \<open>"NaN"\<close>, which \<open>Number\<close> reads back as NaN.\<close>

fun Number_toFixed2 :: "jsnum \<Rightarrow> jsnum" where
  "Number_toFixed2 (Num a) = Num (toFixed2 a)"
| "Number_toFixed2 NaN = NaN"

text \<open>
  \<open>xs.slice(-n)\<close> for a count \<open>n\<close>: the last \<open>n\<close> elements, the whole array when
  \<open>n\<close> exceeds its length, and the whole array for \<open>n = 0\<close> as well, since \<open>-0\<close> is
  the start index 0.
\<close>

definition slice_last :: "'a list \<Rightarrow> nat \<Rightarrow> 'a list" where
  "slice_last xs n = (if n = 0 then xs else drop (length xs - n) xs)"

section \<open>Data model (shared schema)\<close>

record HistoricalPrice =
  date :: string
  "open" :: real
  high :: real
  low :: real
  close :: real
  volume :: real

record macd_t =
  "value" :: jsnum
  signal :: jsnum
  histogram :: jsnum

record movingAverages_t =
  ma20 :: jsnum
  ma50 :: jsnum
  ma200 :: jsnum

record bollingerBands_t =
  upper :: jsnum
  middle :: jsnum
  lower :: jsnum

text \<open>\<open>lastUpdated\<close> is a \<open>Date\<close>, kept as its \<open>getTime()\<close>: milliseconds since the epoch.\<close>

record TechnicalIndicators =
  symbol :: string
  rsi :: jsnum
  macd :: macd_t
  movingAverages :: movingAverages_t
  bollingerBands :: bollingerBands_t
  lastUpdated :: int

section \<open>Series utilities (StockService)\<close>

text \<open>
  \<open>calculateSMA\<close>: the local \<open>period\<close> is capped at the length, the slice is summed by
  \<open>reduce\<close> from 0 and divided by the slice's length. On an empty slice the sum is 0 and
  the division is \<open>0 / 0\<close>, which is NaN.
\<close>

definition calculateSMA :: "real list \<Rightarrow> nat \<Rightarrow> jsnum" where
  "calculateSMA prices period0 =
     (let period = (if length prices < period0 then length prices else period0);
          slice = slice_last prices period
      in if length slice = 0 then NaN
         else Num (foldl (\<lambda>a b. a + b) 0 slice / real (length slice)))"

text \<open>\<open>calculateEMA\<close>: the \<open>for\<close> loop over the indices \<open>1 .. length - 1\<close>.\<close>

function ema_loop :: "real list \<Rightarrow> real \<Rightarrow> nat \<Rightarrow> real \<Rightarrow> real" where
  "ema_loop prices k i ema =
     (if i < length prices
      then ema_loop prices k (i + 1) (prices ! i * k + ema * (1 - k))
      else ema)"
  by pat_completeness auto
termination
  by (relation "measure (\<lambda>(prices, k, i, ema). length prices - i)") auto

definition calculateEMA :: "real list \<Rightarrow> nat \<Rightarrow> real" where
  "calculateEMA prices period =
     (if length prices = 0 then 0
      else let k = 2 / (real period + 1)
           in ema_loop prices k 1 (prices ! 0))"

text \<open>
  \<open>calculateRSI\<close>: \<open>period\<close> is the default argument 14 (the only call passes none).
  The first loop collects the day-over-day changes.
\<close>

function changes_loop :: "real list \<Rightarrow> nat \<Rightarrow> real list \<Rightarrow> real list" where
  "changes_loop prices i changes =
     (if i < length prices
      then changes_loop prices (i + 1) (changes @ [prices ! i - prices ! (i - 1)])
      else changes)"
  by pat_completeness auto
termination
  by (relation "measure (\<lambda>(prices, i, changes). length prices - i)") auto

definition calculateRSI :: "real list \<Rightarrow> real" where
  "calculateRSI prices =
     (let period = (14 :: nat) in
      if length prices < period + 1 then 50
      else
        let changes = changes_loop prices 1 [];
            gains = filter (\<lambda>c. c > 0) (slice_last changes period);
            losses = map (\<lambda>c. \<bar>c\<bar>) (filter (\<lambda>c. c < 0) (slice_last changes period));
            avgGain = (if length gains > 0
                       then foldl (\<lambda>a b. a + b) 0 gains / real period else 0);
            avgLoss = (if length losses > 0
                       then foldl (\<lambda>a b. a + b) 0 losses / real period else 0)
        in if avgLoss = 0 then 100
           else let rs = avgGain / avgLoss in 100 - 100 / (1 + rs))"

definition calculateMACD :: "real list \<Rightarrow> macd_t" where
  "calculateMACD prices =
     (let ema12 = calculateEMA prices 12;
          ema26 = calculateEMA prices 26;
          macdLine = ema12 - ema26
      in \<lparr> value = Num (toFixed2 macdLine),
           signal = Num (toFixed2 (macdLine * 0.8)),
           histogram = Num (toFixed2 (macdLine * 0.2)) \<rparr>)"

text \<open>
  \<open>calculateBollingerBands\<close>: \<open>period\<close> is the default argument 20 (the only call passes
  none). The variance divides by \<open>period\<close>, not by the slice's length.
\<close>

definition calculateBollingerBands :: "real list \<Rightarrow> bollingerBands_t" where
  "calculateBollingerBands prices =
     (let period = (20 :: nat);
          sma = calculateSMA prices period;
          slice = slice_last prices period;
          variance = jdiv_count
            (foldl (\<lambda>sum price. jadd sum (jpow2 (jsub (Num price) sma))) (Num 0) slice) period;
          stdDev = jsqrt variance
      in \<lparr> upper = Number_toFixed2 (jadd sma (jmul stdDev (Num 2))),
           middle = Number_toFixed2 sma,
           lower = Number_toFixed2 (jsub sma (jmul stdDev (Num 2))) \<rparr>)"

section \<open>Indicator aggregator\<close>

text \<open>
  \<open>calculateTechnicalIndicators\<close> reads the clock once, for \<open>lastUpdated: new Date()\<close>;
  the reading is the argument \<open>now\<close>.
\<close>

definition calculateTechnicalIndicators ::
  "int \<Rightarrow> HistoricalPrice list \<Rightarrow> string \<Rightarrow> TechnicalIndicators" where
  "calculateTechnicalIndicators now prices symb =
     (let closes = map close prices
      in \<lparr> symbol = symb,
           rsi = Num (calculateRSI closes),
           macd = calculateMACD closes,
           movingAverages =
             \<lparr> ma20 = calculateSMA closes 20,
               ma50 = calculateSMA closes 50,
               ma200 = calculateSMA closes (min 200 (length closes)) \<rparr>,
           bollingerBands = calculateBollingerBands closes,
           lastUpdated = now \<rparr>)"

section \<open>In-memory storage (MemStorage)\<close>

text \<open>
  The two maps of \<open>MemStorage\<close> that the indicator route reads and writes. A
  JavaScript \<open>Map\<close> with string keys is a partial function; the historical prices are a
  map of maps, by symbol and then by timeframe. The other maps of the class (users, stock
  prices, news, recommendations) are touched by none of the methods below.
\<close>

record MemStorage =
  historicalPrices :: "string \<rightharpoonup> (string \<rightharpoonup> HistoricalPrice list)"
  technicalIndicators :: "string \<rightharpoonup> TechnicalIndicators"

text \<open>
  \<open>MemStorage.getHistoricalPrices\<close>: \<open>symbolData?.get(timeframe) || []\<close>. A stored
  array is truthy even when empty, so it is returned as it is.
\<close>

definition MemStorage_getHistoricalPrices ::
  "MemStorage \<Rightarrow> string \<Rightarrow> string \<Rightarrow> HistoricalPrice list" where
  "MemStorage_getHistoricalPrices st symb timeframe =
     (case historicalPrices st symb of
        None \<Rightarrow> []
      | Some symbolData \<Rightarrow>
          (case symbolData timeframe of None \<Rightarrow> [] | Some prices \<Rightarrow> prices))"

definition setHistoricalPrices ::
  "MemStorage \<Rightarrow> string \<Rightarrow> string \<Rightarrow> HistoricalPrice list \<Rightarrow> MemStorage" where
  "setHistoricalPrices st symb timeframe prices =
     (let st1 = (if historicalPrices st symb = None
                 then st \<lparr> historicalPrices := (historicalPrices st)(symb \<mapsto> Map.empty) \<rparr>
                 else st)
      in case historicalPrices st1 symb of
           None \<Rightarrow> st1
         | Some symbolData \<Rightarrow>
             st1 \<lparr> historicalPrices :=
                     (historicalPrices st1)(symb \<mapsto> symbolData(timeframe \<mapsto> prices)) \<rparr>)"

definition getTechnicalIndicators ::
  "MemStorage \<Rightarrow> string \<Rightarrow> TechnicalIndicators option" where
  "getTechnicalIndicators st symb = technicalIndicators st symb"

definition setTechnicalIndicators :: "MemStorage \<Rightarrow> TechnicalIndicators \<Rightarrow> MemStorage" where
  "setTechnicalIndicators st indicators =
     st \<lparr> technicalIndicators := (technicalIndicators st)(symbol indicators \<mapsto> indicators) \<rparr>"

section \<open>Historical prices (StockService)\<close>

text \<open>
  What the service takes from outside the program: the two readings of the clock a request
  to the indicator route makes (\<open>Date.now()\<close> in the staleness test, \<open>new Date()\<close> in
  the aggregator), what \<open>fetchYahooHistoricalData\<close> resolves to (it reads the network and
  its \<open>catch\<close> block returns the empty array on every failure), the successive results
  of \<open>Math.random()\<close>, and the ISO date of the day \<open>i\<close> days before today.
\<close>

record world =
  clock_check :: int
  clock_compute :: int
  yahoo :: "string \<Rightarrow> string \<Rightarrow> HistoricalPrice list"
  random :: "nat \<Rightarrow> real"
  isoDate :: "nat \<Rightarrow> string"

definition getTimeframeDays :: "string \<Rightarrow> nat" where
  "getTimeframeDays timeframe =
     (if timeframe = ''1D'' then 1
      else if timeframe = ''1W'' then 7
      else if timeframe = ''1M'' then 30
      else if timeframe = ''3M'' then 90
      else if timeframe = ''6M'' then 180
      else if timeframe = ''1Y'' then 365
      else 30)"

text \<open>\<open>fetchIndianHistoricalData\<close> returns the empty array on every path.\<close>

definition fetchIndianHistoricalData :: "string \<Rightarrow> string \<Rightarrow> HistoricalPrice list" where
  "fetchIndianHistoricalData symb timeframe = []"

definition getIndianBasePrice :: "string \<Rightarrow> real" where
  "getIndianBasePrice symb =
     (if symb = ''RELIANCE'' then 2850
      else if symb = ''TCS'' then 4200
      else if symb = ''INFY'' then 1750
      else if symb = ''HDFCBANK'' then 1680
      else if symb = ''ICICIBANK'' then 1200
      else if symb = ''HINDUNILVR'' then 2400
      else if symb = ''ITC'' then 480
      else if symb = ''SBIN'' then 850
      else if symb = ''BHARTIARTL'' then 1550
      else if symb = ''LT'' then 3600
      else 1500)"

text \<open>
  The loop of \<open>generateRealisticHistoricalData\<close>, \<open>for (let i = days; i >= 0; i--)\<close>:
  the first argument is \<open>i + 1\<close>, the number of rounds left, and \<open>d\<close> counts the random
  draws made so far. A round draws four times, in the order of the source: the change,
  the high, the low and the volume.
\<close>

fun generate_loop ::
  "world \<Rightarrow> nat \<Rightarrow> nat \<Rightarrow> real \<Rightarrow> HistoricalPrice list \<Rightarrow> HistoricalPrice list" where
  "generate_loop w 0 d basePrice prices = prices"
| "generate_loop w (Suc i) d basePrice prices =
     (let volatility = 0.02;
          change = (random w d - 0.5) * volatility * basePrice;
          opn = basePrice;
          cls = basePrice + change;
          hi = max opn cls + random w (d + 1) * 2;
          lo = min opn cls - random w (d + 2) * 2;
          vol = of_int \<lfloor>random w (d + 3) * 50000000\<rfloor> + 20000000
      in generate_loop w i (d + 4) cls
           (prices @ [\<lparr> date = isoDate w i,
                        open = toFixed2 opn,
                        high = toFixed2 hi,
                        low = toFixed2 lo,
                        close = toFixed2 cls,
                        volume = vol \<rparr>]))"

definition generateRealisticHistoricalData ::
  "world \<Rightarrow> string \<Rightarrow> string \<Rightarrow> HistoricalPrice list" where
  "generateRealisticHistoricalData w symb timeframe =
     (let days = getTimeframeDays timeframe;
          basePrice = getIndianBasePrice symb
      in generate_loop w (days + 1) 0 basePrice [])"

text \<open>
  \<open>StockService.getHistoricalPrices\<close>. None of the three calls in its \<open>try\<close> block
  throws (each helper catches its own failures), and the \<open>catch\<close> block returns the
  generated data as the last branch does.
\<close>

definition StockService_getHistoricalPrices ::
  "world \<Rightarrow> string \<Rightarrow> string \<Rightarrow> HistoricalPrice list" where
  "StockService_getHistoricalPrices w symb timeframe =
     (let realHistoricalData = yahoo w symb timeframe
      in if length realHistoricalData > 0 then realHistoricalData
         else
           let indianHistoricalData = fetchIndianHistoricalData symb timeframe
           in if length indianHistoricalData > 0 then indianHistoricalData
              else generateRealisticHistoricalData w symb timeframe)"

section \<open>The indicator route\<close>

text \<open>
  \<open>stockSymbolSchema\<close> is \<open>z.string().min(1).max(20).regex(/^[A-Z0-9\s\.\-]+$/)\<close>.
  A string is a list of 8-bit characters; among them \<open>\s\<close> matches the codes 9 to 13,
  32 and 160. \<open>parse\<close> returns its argument or throws, which is \<open>None\<close> here.
\<close>

definition symbol_char :: "char \<Rightarrow> bool" where
  "symbol_char c =
     (let n = (of_char c :: nat)
      in (65 \<le> n \<and> n \<le> 90) \<or> (48 \<le> n \<and> n \<le> 57)
         \<or> (9 \<le> n \<and> n \<le> 13) \<or> n = 32 \<or> n = 160
         \<or> n = 46 \<or> n = 45)"

definition stockSymbolSchema_parse :: "string \<Rightarrow> string option" where
  "stockSymbolSchema_parse s =
     (if 1 \<le> length s \<and> length s \<le> 20 \<and> list_all symbol_char s then Some s else None)"

text \<open>
  The staleness test of the route:
  \<open>!indicators || (Date.now() - indicators.lastUpdated.getTime()) > 300000\<close>.
\<close>

definition isStale :: "int \<Rightarrow> TechnicalIndicators option \<Rightarrow> bool" where
  "isStale now indicators =
     (case indicators of None \<Rightarrow> True | Some ind \<Rightarrow> now - lastUpdated ind > 300000)"

text \<open>
  The responses of the route: \<open>res.json(indicators)\<close>, the status 404 and the status 400
  of the \<open>catch\<close> block. The calls the route makes to the stock service are recorded in
  the order they are made.
\<close>

datatype response = Json TechnicalIndicators | Status404 | Status400

datatype service_call =
    Call_getHistoricalPrices string string
  | Call_calculateTechnicalIndicators "HistoricalPrice list" string

fun is_calculate :: "service_call \<Rightarrow> bool" where
  "is_calculate (Call_calculateTechnicalIndicators prices symb) = True"
| "is_calculate (Call_getHistoricalPrices symb timeframe) = False"

definition respond :: "TechnicalIndicators option \<Rightarrow> response" where
  "respond indicators = (case indicators of None \<Rightarrow> Status404 | Some ind \<Rightarrow> Json ind)"

text \<open>
  The handler of \<open>GET /api/stock/:symbol/technical\<close>. Its argument \<open>param\<close> is
  \<open>req.params.symbol.toUpperCase()\<close>; its result is the response, the storage after the
  request and the calls made to the stock service.
\<close>

definition technical_route ::
  "world \<Rightarrow> MemStorage \<Rightarrow> string \<Rightarrow> response \<times> MemStorage \<times> service_call list" where
  "technical_route w storage param =
     (case stockSymbolSchema_parse param of
        None \<Rightarrow> (Status400, storage, [])
      | Some symb \<Rightarrow>
          let indicators = getTechnicalIndicators storage symb
          in if isStale (clock_check w) indicators then
               let historicalPrices = MemStorage_getHistoricalPrices storage symb ''1M''
               in if length historicalPrices = 0 then
                    let freshPrices = StockService_getHistoricalPrices w symb ''1M''
                    in if length freshPrices > 0 then
                         let storage1 = setHistoricalPrices storage symb ''1M'' freshPrices;
                             fresh = calculateTechnicalIndicators (clock_compute w) freshPrices symb;
                             storage2 = setTechnicalIndicators storage1 fresh
                         in (respond (Some fresh), storage2,
                             [Call_getHistoricalPrices symb ''1M'',
                              Call_calculateTechnicalIndicators freshPrices symb])
                       else (respond indicators, storage, [Call_getHistoricalPrices symb ''1M''])
                  else
                    let fresh = calculateTechnicalIndicators (clock_compute w) historicalPrices symb;
                        storage1 = setTechnicalIndicators storage fresh
                    in (respond (Some fresh), storage1,
                        [Call_calculateTechnicalIndicators historicalPrices symb])
             else (respond indicators, storage, []))"

section \<open>Measures used in the statements\<close>

text \<open>
  The mean of a window of closes, and the variance as \<open>calculateBollingerBands\<close> takes it:
  the squared deviations from the window's mean, summed and divided by the period.
\<close>

definition window_mean :: "real list \<Rightarrow> real" where
  "window_mean w = sum_list w / real (length w)"

definition window_variance :: "real list \<Rightarrow> nat \<Rightarrow> real" where
  "window_variance w period =
     sum_list (map (\<lambda>p. (p - window_mean w) * (p - window_mean w)) w) / real period"

text \<open>
  The recurrence of the exponential moving average as the design document words it:
  \<open>ema_0 = close_0\<close> and \<open>ema_i = close_i * k + ema_(i-1) * (1 - k)\<close>.
\<close>

fun ema_spec :: "real list \<Rightarrow> real \<Rightarrow> nat \<Rightarrow> real" where
  "ema_spec closes k 0 = closes ! 0"
| "ema_spec closes k (Suc i) = closes ! Suc i * k + ema_spec closes k i * (1 - k)"

text \<open>The MACD line before rounding: the local \<open>macdLine\<close> of \<open>calculateMACD\<close>.\<close>

definition macdLine :: "real list \<Rightarrow> real" where
  "macdLine prices = calculateEMA prices 12 - calculateEMA prices 26"

text \<open>The loops are unfolded by hand, one step at a time.\<close>

declare ema_loop.simps [simp del] changes_loop.simps [simp del]

section \<open>Rounding to two decimals\<close>

lemma foldl_add_sum_list: "foldl (\<lambda>a b. a + b) (s::real) xs = s + sum_list xs"
  by (induction xs arbitrary: s) simp_all

lemma toFixed2_nonneg: "0 \<le> x \<Longrightarrow> 0 \<le> toFixed2 x"
  by (simp add: toFixed2_def)

lemma toFixed2_nonpos: "x \<le> 0 \<Longrightarrow> toFixed2 x \<le> 0"
  by (auto simp: toFixed2_def)

lemma toFixed2_mono: "x \<le> y \<Longrightarrow> toFixed2 x \<le> toFixed2 y"
proof -
  assume xy: "x \<le> y"
  consider "y < 0" | "x < 0" "0 \<le> y" | "0 \<le> x" by linarith
  then show ?thesis
  proof cases
    case 1
    then have "x < 0" using xy by simp
    have "\<lfloor>(- y) * 100 + 1 / 2\<rfloor> \<le> \<lfloor>(- x) * 100 + 1 / 2\<rfloor>"
      using xy by (intro floor_mono) simp
    then have "(of_int \<lfloor>(- y) * 100 + 1 / 2\<rfloor> :: real) \<le> of_int \<lfloor>(- x) * 100 + 1 / 2\<rfloor>"
      by simp
    then show ?thesis using 1 \<open>x < 0\<close> by (simp add: toFixed2_def divide_right_mono)
  next
    case 2
    then have "toFixed2 x \<le> 0" "0 \<le> toFixed2 y"
      by (simp_all add: toFixed2_nonpos toFixed2_nonneg)
    then show ?thesis by simp
  next
    case 3
    then have "0 \<le> y" using xy by simp
    have "\<lfloor>x * 100 + 1 / 2\<rfloor> \<le> \<lfloor>y * 100 + 1 / 2\<rfloor>"
      using xy by (intro floor_mono) simp
    then have "(of_int \<lfloor>x * 100 + 1 / 2\<rfloor> :: real) \<le> of_int \<lfloor>y * 100 + 1 / 2\<rfloor>"
      by simp
    then show ?thesis using 3 \<open>0 \<le> y\<close> by (simp add: toFixed2_def divide_right_mono)
  qed
qed




lemma slice_last_nonempty: "xs \<noteq> [] \<Longrightarrow> slice_last xs n \<noteq> []"
proof -
  assume ne: "xs \<noteq> []"
  then have "0 < length xs" by simp
  then have "n \<noteq> 0 \<Longrightarrow> \<not> length xs \<le> length xs - n"
    by linarith
  then show ?thesis using ne by (auto simp: slice_last_def)
qed

lemma slice_last_capped:
  "slice_last xs (if length xs < n then length xs else n) = slice_last xs n"
  by (auto simp: slice_last_def)

lemma calculateSMA_nonempty:
  "prices \<noteq> [] \<Longrightarrow> calculateSMA prices n = Num (window_mean (slice_last prices n))"
  by (simp add: calculateSMA_def Let_def slice_last_capped slice_last_nonempty
      foldl_add_sum_list window_mean_def)

lemma calculateSMA_empty: "calculateSMA [] n = NaN"
  by (simp add: calculateSMA_def slice_last_def)

lemma foldl_sq_dev:
  "foldl (\<lambda>sum price. jadd sum (Num ((price - m) * (price - m)))) (Num s) xs
     = Num (s + sum_list (map (\<lambda>p. (p - m) * (p - m)) xs))"
  by (induction xs arbitrary: s) (simp_all add: add.assoc)

lemma window_variance_nonneg: "0 \<le> window_variance w n"
  unfolding window_variance_def
  by (intro divide_nonneg_nonneg sum_list_nonneg) auto

lemma calculateBollingerBands_nonempty:
  assumes "prices \<noteq> []"
  shows "calculateBollingerBands prices =
     \<lparr> upper = Num (toFixed2 (window_mean (slice_last prices 20)
                    + sqrt (window_variance (slice_last prices 20) 20) * 2)),
       middle = Num (toFixed2 (window_mean (slice_last prices 20))),
       lower = Num (toFixed2 (window_mean (slice_last prices 20)
                    - sqrt (window_variance (slice_last prices 20) 20) * 2)) \<rparr>"
proof -
  have v: "\<not> window_variance (slice_last prices 20) 20 < 0"
    using window_variance_nonneg [of "slice_last prices 20" 20] by simp
  show ?thesis
    using v unfolding calculateBollingerBands_def Let_def
    by (simp add: calculateSMA_nonempty [OF assms] foldl_sq_dev window_variance_def)
qed

lemma calculateBollingerBands_empty:
  "calculateBollingerBands [] = \<lparr> upper = NaN, middle = NaN, lower = NaN \<rparr>"
  by (simp add: calculateBollingerBands_def calculateSMA_empty slice_last_def)

lemma window_constant:
  assumes "w \<noteq> []" and "set w \<subseteq> {c}"
  shows "window_mean w = c" and "window_variance w n = 0"
proof -
  have w: "w = replicate (length w) c"
    using assms(2) by (induction w) auto
  have "sum_list w = real (length w) * c"
    by (subst w) (simp add: sum_list_replicate)
  then show m: "window_mean w = c"
    using assms(1) by (simp add: window_mean_def)
  have "map (\<lambda>p. (p - c) * (p - c)) w = replicate (length w) 0"
    by (subst w) simp
  then have "sum_list (map (\<lambda>p. (p - c) * (p - c)) w) = 0"
    by (simp add: sum_list_replicate)
  then show "window_variance w n = 0"
    by (simp add: window_variance_def m)
qed

lemma toFixed2_eval_pos:
  "0 \<le> x \<Longrightarrow> of_int n \<le> x * 100 + 1 / 2 \<Longrightarrow> x * 100 + 1 / 2 < of_int n + 1
     \<Longrightarrow> toFixed2 x = of_int n / 100"
proof -
  assume "0 \<le> x" and "of_int n \<le> x * 100 + 1 / 2" and "x * 100 + 1 / 2 < of_int n + 1"
  then have "\<lfloor>x * 100 + 1 / 2\<rfloor> = n" by (intro floor_unique) simp_all
  then show ?thesis using \<open>0 \<le> x\<close> by (simp add: toFixed2_def)
qed

lemma calculateBollingerBands_flat:
  assumes "prices \<noteq> []" and "set (slice_last prices 20) \<subseteq> {c}"
  shows "calculateBollingerBands prices
      = \<lparr> upper = Num (toFixed2 c), middle = Num (toFixed2 c), lower = Num (toFixed2 c) \<rparr>"
  using window_constant [OF slice_last_nonempty [OF assms(1)] assms(2)]
  by (simp add: calculateBollingerBands_nonempty [OF assms(1)])

section \<open>Bollinger bands\<close>

text \<open>
  Claim C1, as amended. For every non-empty sequence of closes, the three bands that
  \<open>calculateBollingerBands\<close> returns are numbers with \<open>lower \<le> middle \<le> upper\<close>:
  the standard deviation is not negative and rounding to two decimals keeps the order.
  Nothing is said about when the bands coincide. They are rounded to two decimals, so they
  coincide on windows whose variance is not zero, as on the closes below.
\<close>

theorem bollinger_bands_ordered:
  assumes "prices \<noteq> []"
  shows "jle (lower (calculateBollingerBands prices)) (middle (calculateBollingerBands prices))
       \<and> jle (middle (calculateBollingerBands prices)) (upper (calculateBollingerBands prices))"
proof -
  let ?w = "slice_last prices 20"
  let ?m = "window_mean ?w"
  let ?sd = "sqrt (window_variance ?w 20)"
  have sd: "0 \<le> ?sd" using window_variance_nonneg [of ?w 20] by simp
  note b = calculateBollingerBands_nonempty [OF assms]
  have lo: "toFixed2 (?m - ?sd * 2) \<le> toFixed2 ?m"
    using sd by (intro toFixed2_mono) simp
  have hi: "toFixed2 ?m \<le> toFixed2 (?m + ?sd * 2)"
    using sd by (intro toFixed2_mono) simp
  show ?thesis using lo hi by (simp add: b)
qed

text \<open>
  Claim C1 as stated fails on the closes 100.003, 99.997, 100.001, 99.999: their mean is
  100 and the variance taken over the period is one millionth, so the standard deviation is
  0.001 and the unrounded bands are 100.002, 100 and 99.998. All three round to 100.
\<close>

theorem bollinger_equal_bands_counterexample:
  "upper (calculateBollingerBands [100.003, 99.997, 100.001, 99.999]) = Num 100
   \<and> middle (calculateBollingerBands [100.003, 99.997, 100.001, 99.999]) = Num 100
   \<and> lower (calculateBollingerBands [100.003, 99.997, 100.001, 99.999]) = Num 100
   \<and> window_variance (slice_last [100.003, 99.997, 100.001, 99.999] 20) 20 = 1 / 1000000"
proof -
  define ps :: "real list" where "ps = [100.003, 99.997, 100.001, 99.999]"
  have ne: "ps \<noteq> []" by (simp add: ps_def)
  have w: "slice_last ps 20 = ps" by (simp add: slice_last_def ps_def)
  have m: "window_mean ps = 100" by (simp add: window_mean_def ps_def)
  have v: "window_variance ps 20 = 1 / 1000000"
    unfolding window_variance_def m by (simp add: ps_def)
  have "sqrt (1 / 1000000) = 1 / 1000"
    by (rule real_sqrt_unique) (simp_all add: power2_eq_square)
  then have sd: "sqrt (window_variance ps 20) = 1 / 1000" by (simp only: v)
  have u: "toFixed2 (100 + 1 / 1000 * 2) = 100"
    using toFixed2_eval_pos [of "100 + 1 / 1000 * 2" 10000] by simp
  have mi: "toFixed2 100 = 100"
    using toFixed2_eval_pos [of 100 10000] by simp
  have l: "toFixed2 (100 - 1 / 1000 * 2) = 100"
    using toFixed2_eval_pos [of "100 - 1 / 1000 * 2" 10000] by simp
  have "calculateBollingerBands ps
      = \<lparr> upper = Num 100, middle = Num 100, lower = Num 100 \<rparr>"
    by (simp only: calculateBollingerBands_nonempty [OF ne] w m sd u mi l)
  then have "upper (calculateBollingerBands ps) = Num 100
   \<and> middle (calculateBollingerBands ps) = Num 100
   \<and> lower (calculateBollingerBands ps) = Num 100
   \<and> window_variance (slice_last ps 20) 20 = 1 / 1000000"
    by (simp add: w v)
  then show ?thesis unfolding ps_def .
qed

theorem bollinger_bands_ordered_witness:
  "[100, 101] \<noteq> ([] :: real list)
   \<and> jle (lower (calculateBollingerBands [100, 101])) (middle (calculateBollingerBands [100, 101]))
   \<and> jle (middle (calculateBollingerBands [100, 101])) (upper (calculateBollingerBands [100, 101]))"
proof -
  have ne: "[100, 101] \<noteq> ([] :: real list)" by simp
  from bollinger_bands_ordered [OF ne] ne show ?thesis by blast
qed

section \<open>Exponential moving average\<close>

lemma ema_loop_foldl:
  "ema_loop prices k i e = foldl (\<lambda>ema p. p * k + ema * (1 - k)) e (drop i prices)"
proof (induction prices k i e rule: ema_loop.induct)
  case (1 prices k i ema)
  show ?case
  proof (cases "i < length prices")
    case True
    then have d: "drop i prices = prices ! i # drop (i + 1) prices"
      by (simp add: Cons_nth_drop_Suc)
    have "ema_loop prices k i ema = ema_loop prices k (i + 1) (prices ! i * k + ema * (1 - k))"
      using True by (subst ema_loop.simps) simp
    then show ?thesis using 1 [OF True] by (simp add: d)
  next
    case False
    then show ?thesis by (subst ema_loop.simps) simp
  qed
qed

lemma calculateEMA_foldl:
  "prices \<noteq> [] \<Longrightarrow>
     calculateEMA prices p
       = foldl (\<lambda>ema c. c * (2 / (real p + 1)) + ema * (1 - 2 / (real p + 1))) (hd prices) (tl prices)"
  by (cases prices) (simp_all add: calculateEMA_def Let_def ema_loop_foldl)

lemma foldl_take_ema_spec:
  "i < length prices \<Longrightarrow>
     foldl (\<lambda>ema c. c * k + ema * (1 - k)) (prices ! 0) (take i (drop 1 prices)) = ema_spec prices k i"
proof (induction i)
  case 0
  then show ?case by simp
next
  case (Suc i)
  then have "i < length (drop 1 prices)" by simp
  then have "take (Suc i) (drop 1 prices) = take i (drop 1 prices) @ [drop 1 prices ! i]"
    by (rule take_Suc_conv_app_nth)
  moreover have "drop 1 prices ! i = prices ! Suc i" using Suc.prems by simp
  ultimately show ?case using Suc by simp
qed

lemma calculateEMA_spec:
  assumes "prices \<noteq> []"
  shows "calculateEMA prices p = ema_spec prices (2 / (real p + 1)) (length prices - 1)"
proof -
  have "length prices - 1 < length prices" using assms by (cases prices) auto
  from foldl_take_ema_spec [OF this, of "2 / (real p + 1)"]
  have "foldl (\<lambda>ema c. c * (2 / (real p + 1)) + ema * (1 - 2 / (real p + 1))) (prices ! 0) (drop 1 prices)
      = ema_spec prices (2 / (real p + 1)) (length prices - 1)"
    by simp
  then show ?thesis using assms
    by (simp add: calculateEMA_def Let_def ema_loop_foldl)
qed

lemma foldl_ema_k1:
  "xs \<noteq> [] \<Longrightarrow> foldl (\<lambda>ema c. c * 1 + ema * (1 - 1)) (a::real) xs = last xs"
  by (induction xs arbitrary: a) auto

text \<open>
  Claim C4, as amended. For every non-empty sequence of closes and every period \<open>p\<close>,
  \<open>calculateEMA\<close> is the recurrence \<open>ema_0 = close_0\<close>,
  \<open>ema_i = close_i * k + ema_(i-1) * (1 - k)\<close> with \<open>k = 2 / (p + 1)\<close>, taken at the
  last index: the left-to-right fold over the whole series, seeded with its first element.
  A close before the trailing \<open>p\<close> points can change the result: with the period 2, the
  series 1, 2, 2 and 4, 2, 2 agree on their last two closes and differ in the result. It
  need not: for the period 1, \<open>k\<close> is 1 and the result is the last close, whatever came
  before it.
\<close>

theorem ema_recurrence:
  assumes "prices \<noteq> []"
  shows "calculateEMA prices p = ema_spec prices (2 / (real p + 1)) (length prices - 1)
       \<and> calculateEMA prices p
           = foldl (\<lambda>ema c. c * (2 / (real p + 1)) + ema * (1 - 2 / (real p + 1)))
               (hd prices) (tl prices)
       \<and> (p = 1 \<longrightarrow> calculateEMA prices p = last prices)
       \<and> calculateEMA [1, 2, 2] 2 \<noteq> calculateEMA [4, 2, 2] 2"
proof -
  let ?k = "2 / (real p + 1)"
  let ?f = "\<lambda>ema c. c * ?k + ema * (1 - ?k)"
  have fold: "calculateEMA prices p = foldl ?f (hd prices) (tl prices)"
    using assms by (rule calculateEMA_foldl)
  have one: "calculateEMA prices p = last prices" if "p = 1"
  proof (cases "tl prices = []")
    case True
    then show ?thesis using assms fold by (cases prices) auto
  next
    case False
    then have "foldl (\<lambda>ema c. c * 1 + ema * (1 - 1)) (hd prices) (tl prices) = last (tl prices)"
      by (rule foldl_ema_k1)
    moreover have "last (tl prices) = last prices"
      using False assms by (cases prices) auto
    ultimately show ?thesis using fold that by simp
  qed
  have "calculateEMA [1, 2, 2] 2 = 17 / 9" and "calculateEMA [4, 2, 2] 2 = 20 / 9"
    by (simp_all add: calculateEMA_foldl)
  then have inst: "calculateEMA [1, 2, 2] 2 \<noteq> calculateEMA [4, 2, 2] 2" by simp
  show ?thesis using calculateEMA_spec [OF assms] fold one inst by blast
qed

text \<open>
  Claim C4 as stated fails at the period 1: the series 5, 7 and 9, 7 differ in their
  history and agree on the trailing point, and both results are that point.
\<close>

theorem ema_period_one_counterexample:
  "calculateEMA [5, 7] 1 = 7 \<and> calculateEMA [9, 7] 1 = 7"
  by (simp add: calculateEMA_foldl)

theorem ema_recurrence_witness:
  "[5, 7] \<noteq> ([] :: real list) \<and> (1::nat) = 1
   \<and> calculateEMA [5, 7] 2 = ema_spec [5, 7] (2 / (real 2 + 1)) (length [5, 7 :: real] - 1)
   \<and> calculateEMA [5, 7] 1 = last [5, 7]"
proof -
  have ne: "[5, 7] \<noteq> ([] :: real list)" by simp
  from ema_recurrence [OF ne, of 2] ema_recurrence [OF ne, of 1] show ?thesis by simp
qed

section \<open>Relative strength index\<close>

lemma sum_list_filter_pos: "0 \<le> sum_list (filter (\<lambda>c. c > 0) (xs :: real list))"
  by (induction xs) auto

lemma sum_list_map_abs: "0 \<le> sum_list (map (\<lambda>c. \<bar>c\<bar>) (xs :: real list))"
  by (induction xs) auto

lemma rsi_formula_range:
  assumes "0 \<le> g" and "0 < l"
  shows "0 \<le> 100 - 100 / (1 + g / l) \<and> 100 - 100 / (1 + g / l) \<le> (100::real)"
proof -
  have "1 \<le> 1 + g / l" using assms by simp
  then have "100 / (1 + g / l) \<le> 100 / 1"
    by (intro divide_left_mono) simp_all
  moreover have "0 \<le> 100 / (1 + g / l)" using assms by simp
  ultimately show ?thesis by simp
qed

text \<open>
  Claim C2. For every sequence of closes, \<open>calculateRSI\<close> (period 14) returns a number
  between 0 and 100, and it returns 50 whenever fewer than 15 closes are supplied.
\<close>

theorem rsi_range:
  "0 \<le> calculateRSI prices \<and> calculateRSI prices \<le> 100
   \<and> (length prices < 15 \<longrightarrow> calculateRSI prices = 50)"
proof -
  define ch where "ch = slice_last (changes_loop prices 1 []) 14"
  define g where "g = (if length (filter (\<lambda>c. c > 0) ch) > 0
     then foldl (\<lambda>a b. a + b) 0 (filter (\<lambda>c. c > 0) ch) / 14 else 0)"
  define l where "l = (if length (map (\<lambda>c. \<bar>c\<bar>) (filter (\<lambda>c. c < 0) ch)) > 0
     then foldl (\<lambda>a b. a + b) 0 (map (\<lambda>c. \<bar>c\<bar>) (filter (\<lambda>c. c < 0) ch)) / 14 else 0)"
  have rsi: "calculateRSI prices
      = (if length prices < 15 then 50 else if l = 0 then 100 else 100 - 100 / (1 + g / l))"
    by (simp add: calculateRSI_def Let_def g_def l_def ch_def)
  have g: "0 \<le> g"
    by (simp add: g_def foldl_add_sum_list sum_list_filter_pos)
  have l: "0 \<le> l"
    by (simp add: l_def foldl_add_sum_list sum_list_map_abs)
  show ?thesis
  proof (cases "length prices < 15")
    case True
    then show ?thesis by (simp add: rsi)
  next
    case long: False
    show ?thesis
    proof (cases "l = 0")
      case True
      then show ?thesis using long by (simp add: rsi)
    next
      case False
      then have "0 < l" using l by simp
      from rsi_formula_range [OF g this] show ?thesis using long False by (simp add: rsi)
    qed
  qed
qed

theorem rsi_range_witness:
  "length [10, 11, 12, 13, 14, 15, 16, 17, 18, 19, 20 :: real] < 15
   \<and> 0 \<le> calculateRSI [10, 11, 12, 13, 14, 15, 16, 17, 18, 19, 20]
   \<and> calculateRSI [10, 11, 12, 13, 14, 15, 16, 17, 18, 19, 20] \<le> 100
   \<and> calculateRSI [10, 11, 12, 13, 14, 15, 16, 17, 18, 19, 20] = 50"
  using rsi_range [of "[10, 11, 12, 13, 14, 15, 16, 17, 18, 19, 20]"] by simp

section \<open>MACD\<close>



section \<open>The aggregator\<close>

lemma toFixed2_zero: "toFixed2 0 = 0"
  by (simp add: toFixed2_def)

lemma calculateEMA_empty: "calculateEMA [] p = 0"
  by (simp add: calculateEMA_def)

lemma calculateMACD_empty:
  "calculateMACD [] = \<lparr> value = Num 0, signal = Num 0, histogram = Num 0 \<rparr>"
  by (simp add: calculateMACD_def calculateEMA_empty toFixed2_zero)

lemma calculateRSI_short: "length prices < 15 \<Longrightarrow> calculateRSI prices = 50"
  by (simp add: calculateRSI_def)

text \<open>
  Claim C10. The bodies of \<open>calculateTechnicalIndicators\<close> and of the helpers it calls
  hold no \<open>throw\<close> and call nothing that can throw (\<open>reduce\<close> always gets its
  initial value, \<open>prices[0]\<close> is read behind the length test, \<open>toFixed\<close> gets the
  digit count 2), so each is embedded as a total function whose value is what the method
  returns. On the empty list that value is the snapshot with \<open>rsi = 50\<close>, zeros for the
  three MACD fields, and NaN for every moving average and every Bollinger band.
\<close>

theorem aggregator_empty_snapshot:
  "calculateTechnicalIndicators now [] symb
     = \<lparr> symbol = symb,
         rsi = Num 50,
         macd = \<lparr> value = Num 0, signal = Num 0, histogram = Num 0 \<rparr>,
         movingAverages = \<lparr> ma20 = NaN, ma50 = NaN, ma200 = NaN \<rparr>,
         bollingerBands = \<lparr> upper = NaN, middle = NaN, lower = NaN \<rparr>,
         lastUpdated = now \<rparr>"
  by (simp add: calculateTechnicalIndicators_def Let_def calculateRSI_short calculateMACD_empty
      calculateSMA_empty calculateBollingerBands_empty)

text \<open>
  Claim C5, as amended. No function fails on an empty series: \<open>calculateSMA\<close> returns
  NaN for every period, \<open>calculateBollingerBands\<close> returns NaN in its three fields and
  \<open>calculateMACD\<close> returns zeros; the aggregator on an empty bar list returns a snapshot
  built from exactly these results. The code has no \<open>EmptySeries\<close> and no
  \<open>InsufficientData\<close> error.
\<close>

theorem empty_series_returns:
  "calculateSMA [] period = NaN
   \<and> calculateBollingerBands [] = \<lparr> upper = NaN, middle = NaN, lower = NaN \<rparr>
   \<and> calculateMACD [] = \<lparr> value = Num 0, signal = Num 0, histogram = Num 0 \<rparr>
   \<and> movingAverages (calculateTechnicalIndicators now [] symb)
       = \<lparr> ma20 = calculateSMA [] 20, ma50 = calculateSMA [] 50, ma200 = calculateSMA [] 0 \<rparr>
   \<and> bollingerBands (calculateTechnicalIndicators now [] symb) = calculateBollingerBands []
   \<and> macd (calculateTechnicalIndicators now [] symb) = calculateMACD []"
  by (simp add: calculateSMA_empty calculateBollingerBands_empty calculateMACD_empty
      calculateTechnicalIndicators_def Let_def)

text \<open>
  Claim C5 as stated fails on the empty series: the three helpers and the aggregator
  return the values below where the claim has them fail.
\<close>

theorem empty_series_counterexample:
  "calculateSMA [] 20 = NaN
   \<and> calculateBollingerBands [] = \<lparr> upper = NaN, middle = NaN, lower = NaN \<rparr>
   \<and> calculateMACD [] = \<lparr> value = Num 0, signal = Num 0, histogram = Num 0 \<rparr>
   \<and> rsi (calculateTechnicalIndicators 0 [] ''TCS'') = Num 50"
  by (simp add: calculateSMA_empty calculateBollingerBands_empty calculateMACD_empty
      calculateTechnicalIndicators_def Let_def calculateRSI_short)

text \<open>
  Claim C9, as amended. Two calls of \<open>calculateTechnicalIndicators\<close> with the same bars
  and symbol return snapshots that agree in every field except \<open>lastUpdated\<close>, which is
  the reading of the clock at each call.
\<close>

theorem aggregator_clock:
  "calculateTechnicalIndicators now1 prices symb
     = (calculateTechnicalIndicators now2 prices symb) \<lparr> lastUpdated := now1 \<rparr>"
  by (simp add: calculateTechnicalIndicators_def Let_def)

text \<open>
  Claim C9 as stated fails for two calls on the same one-bar list at the clock readings 0
  and 1: the snapshots differ in \<open>lastUpdated\<close>.
\<close>

theorem aggregator_clock_counterexample:
  "calculateTechnicalIndicators 0
      [\<lparr> date = ''2024-01-01'', open = 1, high = 1, low = 1, close = 1, volume = 1 \<rparr>] ''TCS''
   \<noteq> calculateTechnicalIndicators 1
      [\<lparr> date = ''2024-01-01'', open = 1, high = 1, low = 1, close = 1, volume = 1 \<rparr>] ''TCS''"
  by (simp add: calculateTechnicalIndicators_def Let_def)

lemma changes_loop_flat:
  "set changes \<subseteq> {0} \<Longrightarrow> set (changes_loop (replicate n c) i changes) \<subseteq> {0}"
proof (induction "replicate n c" i changes rule: changes_loop.induct)
  case (1 i changes)
  show ?case
  proof (cases "i < length (replicate n c)")
    case True
    then have "replicate n c ! i - replicate n c ! (i - 1) = 0" by simp
    then have "set (changes @ [replicate n c ! i - replicate n c ! (i - 1)]) \<subseteq> {0}"
      using 1(2) by simp
    from 1(1) [OF True this] True show ?thesis
      by (subst changes_loop.simps) simp
  next
    case False
    then show ?thesis using 1(2) by (subst changes_loop.simps) simp
  qed
qed

lemma set_slice_last: "set (slice_last xs n) \<subseteq> set xs"
  by (auto simp: slice_last_def dest: in_set_dropD)

lemma calculateRSI_flat:
  assumes "15 \<le> n"
  shows "calculateRSI (replicate n c) = 100"
proof -
  have "set (changes_loop (replicate n c) 1 []) \<subseteq> {0}"
    by (rule changes_loop_flat) simp
  then have z: "set (slice_last (changes_loop (replicate n c) 1 []) 14) \<subseteq> {0}"
    using set_slice_last by fastforce
  have "filter (\<lambda>c. c < 0) (slice_last (changes_loop (replicate n c) 1 []) 14) = []"
    using z by (auto simp: filter_empty_conv)
  then show ?thesis using assms by (simp add: calculateRSI_def Let_def)
qed

text \<open>
  Claim C6, as amended. For 30 bars whose closes are all 100, the snapshot has the three
  Bollinger bands at 100 and \<open>rsi = 100\<close>: no change is negative, so the average loss is
  0 and \<open>calculateRSI\<close> returns 100 by its \<open>avgLoss === 0\<close> branch.
\<close>

theorem flat_series_snapshot:
  assumes "map close bars = replicate 30 100"
  shows "bollingerBands (calculateTechnicalIndicators now bars symb)
           = \<lparr> upper = Num 100, middle = Num 100, lower = Num 100 \<rparr>
       \<and> rsi (calculateTechnicalIndicators now bars symb) = Num 100"
proof -
  have ne: "replicate 30 (100::real) \<noteq> []" by simp
  have "set (slice_last (replicate 30 (100::real)) 20) \<subseteq> {100}"
    using set_slice_last [of "replicate 30 (100::real)" 20] by simp
  with calculateBollingerBands_flat [OF ne, of 100] have "calculateBollingerBands (replicate 30 100)
      = \<lparr> upper = Num (toFixed2 100), middle = Num (toFixed2 100), lower = Num (toFixed2 100) \<rparr>"
    by simp
  moreover have "toFixed2 100 = 100"
    using toFixed2_eval_pos [of 100 10000] by simp
  moreover have "calculateRSI (replicate 30 100) = 100"
    by (rule calculateRSI_flat) simp
  ultimately show ?thesis
    by (simp add: calculateTechnicalIndicators_def Let_def assms)
qed


theorem flat_series_snapshot_witness:
  "map close (replicate 30 \<lparr> date = ''2024-01-01'', open = 100, high = 100, low = 100,
        close = 100, volume = 1000 \<rparr>) = replicate 30 100
   \<and> bollingerBands (calculateTechnicalIndicators 0
         (replicate 30 \<lparr> date = ''2024-01-01'', open = 100, high = 100, low = 100,
            close = 100, volume = 1000 \<rparr>) ''TCS'')
       = \<lparr> upper = Num 100, middle = Num 100, lower = Num 100 \<rparr>
   \<and> rsi (calculateTechnicalIndicators 0
         (replicate 30 \<lparr> date = ''2024-01-01'', open = 100, high = 100, low = 100,
            close = 100, volume = 1000 \<rparr>) ''TCS'') = Num 100"
  using flat_series_snapshot [of "replicate 30 \<lparr> date = ''2024-01-01'', open = 100, high = 100,
      low = 100, close = 100, volume = 1000 \<rparr>" 0 "''TCS''"]
  by simp

text \<open>
  Claim C6 as stated fails on that series: \<open>calculateRSI\<close> on 30 closes of 100 is 100,
  not 50.
\<close>

theorem flat_series_rsi_counterexample:
  "calculateRSI (replicate 30 100) = 100
   \<and> rsi (calculateTechnicalIndicators 0
         (replicate 30 \<lparr> date = ''2024-01-01'', open = 100, high = 100, low = 100,
            close = 100, volume = 1000 \<rparr>) ''TCS'') \<noteq> Num 50"
proof -
  have "calculateRSI (replicate 30 100) = 100"
    by (rule calculateRSI_flat) simp
  then show ?thesis by (simp add: calculateTechnicalIndicators_def Let_def)
qed

section \<open>The cache and the indicator route\<close>

lemma length_generate_loop:
  "length (generate_loop w n d basePrice prices) = length prices + n"
  by (induction n arbitrary: d basePrice prices) (simp_all add: Let_def)

lemma length_generateRealisticHistoricalData:
  "length (generateRealisticHistoricalData w symb timeframe) = getTimeframeDays timeframe + 1"
  by (simp add: generateRealisticHistoricalData_def Let_def length_generate_loop)

lemma generateRealisticHistoricalData_nonempty:
  "generateRealisticHistoricalData w symb timeframe \<noteq> []"
  using length_generateRealisticHistoricalData [of w symb timeframe] by auto

lemma StockService_getHistoricalPrices_nonempty:
  "0 < length (StockService_getHistoricalPrices w symb timeframe)"
  by (simp add: StockService_getHistoricalPrices_def Let_def fetchIndianHistoricalData_def
      generateRealisticHistoricalData_nonempty)

lemma get_set_TechnicalIndicators:
  "getTechnicalIndicators (setTechnicalIndicators st v) k
     = (if k = symbol v then Some v else getTechnicalIndicators st k)"
  by (simp add: getTechnicalIndicators_def setTechnicalIndicators_def)

lemma symbol_calculateTechnicalIndicators:
  "symbol (calculateTechnicalIndicators now prices symb) = symb"
  by (simp add: calculateTechnicalIndicators_def Let_def)

lemma technical_route_fresh:
  assumes "stockSymbolSchema_parse param = Some symb"
    and "getTechnicalIndicators storage symb = Some ind"
    and "clock_check w - lastUpdated ind \<le> 300000"
  shows "technical_route w storage param = (Json ind, storage, [])"
  using assms by (simp add: technical_route_def isStale_def respond_def)

lemma technical_route_stale:
  assumes "stockSymbolSchema_parse param = Some symb"
    and "isStale (clock_check w) (getTechnicalIndicators storage symb)"
  shows "\<exists>bars storage'.
           technical_route w storage param
             = (Json (calculateTechnicalIndicators (clock_compute w) bars symb), storage',
                (if MemStorage_getHistoricalPrices storage symb ''1M'' = []
                 then [Call_getHistoricalPrices symb ''1M''] else [])
                @ [Call_calculateTechnicalIndicators bars symb])
         \<and> getTechnicalIndicators storage' symb
             = Some (calculateTechnicalIndicators (clock_compute w) bars symb)"
proof (cases "MemStorage_getHistoricalPrices storage symb ''1M'' = []")
  case True
  let ?fresh = "StockService_getHistoricalPrices w symb ''1M''"
  have ne: "0 < length ?fresh" by (rule StockService_getHistoricalPrices_nonempty)
  show ?thesis
    using assms True ne
    by (intro exI [of _ ?fresh])
       (simp add: technical_route_def Let_def respond_def get_set_TechnicalIndicators
          symbol_calculateTechnicalIndicators)
next
  case False
  show ?thesis
    using assms False
    by (intro exI [of _ "MemStorage_getHistoricalPrices storage symb ''1M''"])
       (simp add: technical_route_def Let_def respond_def get_set_TechnicalIndicators
          symbol_calculateTechnicalIndicators)
qed

text \<open>
  Claim C7, as amended. Take a request whose symbol passes the schema of the route. When
  the storage holds a snapshot for the symbol whose age at the staleness test is at most
  300000 ms, the route answers with that snapshot, leaves the storage as it was and calls
  the stock service not at all: no recomputation and no upstream fetch. When the snapshot
  is absent or older than 300000 ms, the route calls the aggregator exactly once, on the
  bars it found in the storage or fetched, answers with the computed snapshot and stores it
  under the symbol. (\<open>StockService.getHistoricalPrices\<close> never returns an empty array:
  its last branch generates one bar per day of the timeframe and one more.)
\<close>

theorem technical_route_cache:
  assumes "stockSymbolSchema_parse param = Some symb"
  shows "(getTechnicalIndicators storage symb = Some ind
            \<and> clock_check w - lastUpdated ind \<le> 300000
          \<longrightarrow> technical_route w storage param = (Json ind, storage, []))
       \<and> (getTechnicalIndicators storage symb = None
            \<or> (getTechnicalIndicators storage symb = Some ind
                \<and> clock_check w - lastUpdated ind > 300000)
          \<longrightarrow> (\<exists>bars storage' calls.
                 technical_route w storage param
                   = (Json (calculateTechnicalIndicators (clock_compute w) bars symb),
                      storage', calls)
               \<and> filter is_calculate calls = [Call_calculateTechnicalIndicators bars symb]
               \<and> getTechnicalIndicators storage' symb
                   = Some (calculateTechnicalIndicators (clock_compute w) bars symb)))"
proof (intro conjI impI)
  assume "getTechnicalIndicators storage symb = Some ind
            \<and> clock_check w - lastUpdated ind \<le> 300000"
  then show "technical_route w storage param = (Json ind, storage, [])"
    using assms by (simp add: technical_route_fresh)
next
  assume "getTechnicalIndicators storage symb = None
            \<or> (getTechnicalIndicators storage symb = Some ind
                \<and> clock_check w - lastUpdated ind > 300000)"
  then have "isStale (clock_check w) (getTechnicalIndicators storage symb)"
    by (auto simp: isStale_def)
  from technical_route_stale [OF assms this]
  obtain bars storage' where
    r: "technical_route w storage param
             = (Json (calculateTechnicalIndicators (clock_compute w) bars symb), storage',
                (if MemStorage_getHistoricalPrices storage symb ''1M'' = []
                 then [Call_getHistoricalPrices symb ''1M''] else [])
                @ [Call_calculateTechnicalIndicators bars symb])"
    and g: "getTechnicalIndicators storage' symb
             = Some (calculateTechnicalIndicators (clock_compute w) bars symb)"
    by blast
  show "\<exists>bars storage' calls.
                 technical_route w storage param
                   = (Json (calculateTechnicalIndicators (clock_compute w) bars symb),
                      storage', calls)
               \<and> filter is_calculate calls = [Call_calculateTechnicalIndicators bars symb]
               \<and> getTechnicalIndicators storage' symb
                   = Some (calculateTechnicalIndicators (clock_compute w) bars symb)"
    using r g by (intro exI [of _ bars] exI [of _ storage']) simp
qed

text \<open>
  Claim C7 as stated, for every request, fails on the symbol \<open>M&M\<close>: the ampersand is
  outside the schema, so \<open>parse\<close> throws and the route answers with the status 400.
  The storage has no snapshot for the symbol, and the route computes none and stores none.
\<close>

theorem technical_route_invalid_symbol_counterexample:
  "getTechnicalIndicators
     \<lparr> historicalPrices = Map.empty, technicalIndicators = Map.empty \<rparr> ''M&M'' = None
   \<and> technical_route
         \<lparr> clock_check = 2000, clock_compute = 2001, yahoo = (\<lambda>s t. []),
           random = (\<lambda>n. 1 / 2), isoDate = (\<lambda>i. ''2024-01-01'') \<rparr>
         \<lparr> historicalPrices = Map.empty, technicalIndicators = Map.empty \<rparr>
         ''M&M''
       = (Status400,
          \<lparr> historicalPrices = Map.empty, technicalIndicators = Map.empty \<rparr>,
          [])"
  by (simp add: technical_route_def stockSymbolSchema_parse_def symbol_char_def
      getTechnicalIndicators_def)

text \<open>
  Claim C8, as amended. For every storage and snapshot \<open>v\<close>: after
  \<open>setTechnicalIndicators(v)\<close>, \<open>getTechnicalIndicators(v.symbol)\<close> returns exactly
  \<open>v\<close>, whatever was stored for that symbol before, and every other symbol reads as
  before. The storage keeps no time of its own: the staleness test of the route is true on
  an absent entry, and on the stored \<open>v\<close> it is true exactly when more than 300000 ms
  have passed since \<open>v.lastUpdated\<close>. So it is false right after a snapshot stamped with
  the current time is stored, and true from 300001 ms after that stamp on.
\<close>

theorem cache_set_get:
  "getTechnicalIndicators (setTechnicalIndicators storage v) (symbol v) = Some v
   \<and> (k \<noteq> symbol v \<longrightarrow>
        getTechnicalIndicators (setTechnicalIndicators storage v) k
          = getTechnicalIndicators storage k)
   \<and> isStale now None
   \<and> (isStale now (getTechnicalIndicators (setTechnicalIndicators storage v) (symbol v))
        \<longleftrightarrow> now - lastUpdated v > 300000)
   \<and> \<not> isStale (lastUpdated v)
         (getTechnicalIndicators (setTechnicalIndicators storage v) (symbol v))"
  by (simp add: get_set_TechnicalIndicators isStale_def)


text \<open>
  The witness takes the symbol TCS at the clock reading 2000 with a snapshot stamped 1000
  in the storage (a hit), with an empty storage (a miss), and at the clock reading 401000
  with the snapshot stamped 1000 (an entry 400000 ms old).
\<close>

theorem technical_route_cache_witness:
  "stockSymbolSchema_parse ''TCS'' = Some ''TCS''
   \<and> getTechnicalIndicators
         \<lparr> historicalPrices = Map.empty,
           technicalIndicators = [''TCS'' \<mapsto> calculateTechnicalIndicators 1000 [] ''TCS''] \<rparr> ''TCS''
       = Some (calculateTechnicalIndicators 1000 [] ''TCS'')
   \<and> (2000::int) - lastUpdated (calculateTechnicalIndicators 1000 [] ''TCS'') \<le> 300000
   \<and> technical_route
         \<lparr> clock_check = 2000, clock_compute = 2001, yahoo = (\<lambda>s t. []),
           random = (\<lambda>n. 1 / 2), isoDate = (\<lambda>i. ''2024-01-01'') \<rparr>
         \<lparr> historicalPrices = Map.empty,
           technicalIndicators = [''TCS'' \<mapsto> calculateTechnicalIndicators 1000 [] ''TCS''] \<rparr>
         ''TCS''
       = (Json (calculateTechnicalIndicators 1000 [] ''TCS''),
          \<lparr> historicalPrices = Map.empty,
            technicalIndicators = [''TCS'' \<mapsto> calculateTechnicalIndicators 1000 [] ''TCS''] \<rparr>,
          [])
   \<and> getTechnicalIndicators
         \<lparr> historicalPrices = Map.empty, technicalIndicators = Map.empty \<rparr> ''TCS'' = None
   \<and> (\<exists>bars storage' calls.
         technical_route
           \<lparr> clock_check = 2000, clock_compute = 2001, yahoo = (\<lambda>s t. []),
             random = (\<lambda>n. 1 / 2), isoDate = (\<lambda>i. ''2024-01-01'') \<rparr>
           \<lparr> historicalPrices = Map.empty, technicalIndicators = Map.empty \<rparr>
           ''TCS''
         = (Json (calculateTechnicalIndicators 2001 bars ''TCS''), storage', calls)
       \<and> filter is_calculate calls = [Call_calculateTechnicalIndicators bars ''TCS'']
       \<and> getTechnicalIndicators storage' ''TCS''
           = Some (calculateTechnicalIndicators 2001 bars ''TCS''))
   \<and> (401000::int) - lastUpdated (calculateTechnicalIndicators 1000 [] ''TCS'') > 300000
   \<and> (\<exists>bars storage' calls.
         technical_route
           \<lparr> clock_check = 401000, clock_compute = 401001, yahoo = (\<lambda>s t. []),
             random = (\<lambda>n. 1 / 2), isoDate = (\<lambda>i. ''2024-01-01'') \<rparr>
           \<lparr> historicalPrices = Map.empty,
             technicalIndicators = [''TCS'' \<mapsto> calculateTechnicalIndicators 1000 [] ''TCS''] \<rparr>
           ''TCS''
         = (Json (calculateTechnicalIndicators 401001 bars ''TCS''), storage', calls)
       \<and> filter is_calculate calls = [Call_calculateTechnicalIndicators bars ''TCS'']
       \<and> getTechnicalIndicators storage' ''TCS''
           = Some (calculateTechnicalIndicators 401001 bars ''TCS''))"
proof -
  let ?w = "\<lparr> clock_check = 2000, clock_compute = 2001, yahoo = (\<lambda>s t. []),
           random = (\<lambda>n. 1 / 2), isoDate = (\<lambda>i. ''2024-01-01'') \<rparr>"
  let ?late = "\<lparr> clock_check = 401000, clock_compute = 401001, yahoo = (\<lambda>s t. []),
           random = (\<lambda>n. 1 / 2), isoDate = (\<lambda>i. ''2024-01-01'') \<rparr>"
  let ?ind = "calculateTechnicalIndicators 1000 [] ''TCS''"
  let ?hit = "\<lparr> historicalPrices = Map.empty, technicalIndicators = [''TCS'' \<mapsto> ?ind] \<rparr>"
  let ?miss = "\<lparr> historicalPrices = Map.empty, technicalIndicators = Map.empty \<rparr>"
  have p: "stockSymbolSchema_parse ''TCS'' = Some ''TCS''"
    by (simp add: stockSymbolSchema_parse_def symbol_char_def)
  have h: "getTechnicalIndicators ?hit ''TCS'' = Some ?ind"
    by (simp add: getTechnicalIndicators_def)
  have a: "(2000::int) - lastUpdated ?ind \<le> 300000"
    by (simp add: calculateTechnicalIndicators_def Let_def)
  have o: "(401000::int) - lastUpdated ?ind > 300000"
    by (simp add: calculateTechnicalIndicators_def Let_def)
  have m: "getTechnicalIndicators ?miss ''TCS'' = None"
    by (simp add: getTechnicalIndicators_def)
  from technical_route_cache [OF p, of ?hit ?ind ?w] h a
  have 1: "technical_route ?w ?hit ''TCS'' = (Json ?ind, ?hit, [])" by simp
  from technical_route_cache [OF p, of ?miss ?ind ?w] m
  have 2: "\<exists>bars storage' calls.
         technical_route ?w ?miss ''TCS''
         = (Json (calculateTechnicalIndicators 2001 bars ''TCS''), storage', calls)
       \<and> filter is_calculate calls = [Call_calculateTechnicalIndicators bars ''TCS'']
       \<and> getTechnicalIndicators storage' ''TCS''
           = Some (calculateTechnicalIndicators 2001 bars ''TCS'')" by simp
  from technical_route_cache [OF p, of ?hit ?ind ?late] h o
  have 3: "\<exists>bars storage' calls.
         technical_route ?late ?hit ''TCS''
         = (Json (calculateTechnicalIndicators 401001 bars ''TCS''), storage', calls)
       \<and> filter is_calculate calls = [Call_calculateTechnicalIndicators bars ''TCS'']
       \<and> getTechnicalIndicators storage' ''TCS''
           = Some (calculateTechnicalIndicators 401001 bars ''TCS'')" by simp
  show ?thesis using p h a m o 1 2 3 by blast
qed

theorem cache_set_get_witness:
  "''INFY'' \<noteq> symbol (calculateTechnicalIndicators 1000 [] ''TCS'')
   \<and> getTechnicalIndicators
        (setTechnicalIndicators
           \<lparr> historicalPrices = Map.empty, technicalIndicators = Map.empty \<rparr>
           (calculateTechnicalIndicators 1000 [] ''TCS'')) ''TCS''
       = Some (calculateTechnicalIndicators 1000 [] ''TCS'')
   \<and> getTechnicalIndicators
        (setTechnicalIndicators
           \<lparr> historicalPrices = Map.empty, technicalIndicators = Map.empty \<rparr>
           (calculateTechnicalIndicators 1000 [] ''TCS'')) ''INFY''
       = None
   \<and> \<not> isStale 301000
        (getTechnicalIndicators
          (setTechnicalIndicators
             \<lparr> historicalPrices = Map.empty, technicalIndicators = Map.empty \<rparr>
             (calculateTechnicalIndicators 1000 [] ''TCS'')) ''TCS'')
   \<and> isStale 301001
        (getTechnicalIndicators
          (setTechnicalIndicators
             \<lparr> historicalPrices = Map.empty, technicalIndicators = Map.empty \<rparr>
             (calculateTechnicalIndicators 1000 [] ''TCS'')) ''TCS'')"
proof -
  let ?v = "calculateTechnicalIndicators 1000 [] ''TCS''"
  let ?st = "\<lparr> historicalPrices = Map.empty, technicalIndicators = Map.empty \<rparr>"
  have s: "symbol ?v = ''TCS''" and t: "lastUpdated ?v = 1000"
    by (simp_all add: calculateTechnicalIndicators_def Let_def)
  have e: "getTechnicalIndicators ?st ''INFY'' = None"
    by (simp add: getTechnicalIndicators_def)
  note c1 = cache_set_get [of ?st ?v "''INFY''" 301000, unfolded s t]
  note c2 = cache_set_get [of ?st ?v "''INFY''" 301001, unfolded s t]
  have "''INFY'' \<noteq> ''TCS''" by simp
  moreover have "getTechnicalIndicators (setTechnicalIndicators ?st ?v) ''TCS'' = Some ?v"
    using c1 by blast
  moreover have "getTechnicalIndicators (setTechnicalIndicators ?st ?v) ''INFY'' = None"
    using c1 e by auto
  moreover have "\<not> isStale 301000 (getTechnicalIndicators (setTechnicalIndicators ?st ?v) ''TCS'')"
  proof -
    from c1 have "isStale 301000 (getTechnicalIndicators (setTechnicalIndicators ?st ?v) ''TCS'')
        = ((300000::int) < 301000 - 1000)" by blast
    then show ?thesis by simp
  qed
  moreover have "isStale 301001 (getTechnicalIndicators (setTechnicalIndicators ?st ?v) ''TCS'')"
  proof -
    from c2 have "isStale 301001 (getTechnicalIndicators (setTechnicalIndicators ?st ?v) ''TCS'')
        = ((300000::int) < 301001 - 1000)" by blast
    then show ?thesis by simp
  qed
  ultimately show ?thesis unfolding s by blast
qed

text \<open>
  Claim C8 as stated fails for a snapshot stamped at time 0 that is stored at time 400000:
  read back at once, it is stale.
\<close>

theorem cache_stale_after_set_counterexample:
  "isStale 400000
     (getTechnicalIndicators
        (setTechnicalIndicators
           \<lparr> historicalPrices = Map.empty, technicalIndicators = Map.empty \<rparr>
           (calculateTechnicalIndicators 0 [] ''TCS'')) ''TCS'')"
  by (simp add: isStale_def getTechnicalIndicators_def setTechnicalIndicators_def
      calculateTechnicalIndicators_def Let_def)

end
